theory Spec2Isabelle
  imports Main "HOL-Library.Word"
begin

unbundle bit_operations_syntax

section \<open>The attribute mapping list item of the identity verification provider settings\<close>

text \<open>
  A shallow embedding of \<^verbatim>\<open>attribute-mapping-list-item.tsx\<close>: the component's
  props and local state, the two effects, the validation of the external attribute
  field, the form submission handler and the \<^verbatim>\<open>disabled\<close> attribute of the submit
  buttons. State setters become updates of a state record that is passed in and
  returned; calls into the parent and into the form library become lists of calls, in
  the order the handler makes them.
\<close>

subsection \<open>JavaScript values\<close>

text \<open>
  A JavaScript string is a sequence of 16-bit code units. \<open>lit\<close> writes an ASCII
  literal as such a sequence.
\<close>

type_synonym code_unit = "16 word"
type_synonym js_string = "code_unit list"

definition lit :: "string \<Rightarrow> js_string" where
  "lit s = map of_char s"

text \<open>
  A value that the code reads as \<^verbatim>\<open>T | undefined | null\<close>: optional props, optional
  fields, the \<^verbatim>\<open>any\<close> handed to the validation, and state declared by
  \<^verbatim>\<open>useState<T>()\<close>, which starts as \<^verbatim>\<open>undefined\<close>. Equality of this type is
  \<^verbatim>\<open>===\<close> on strings, \<^verbatim>\<open>undefined\<close> and \<^verbatim>\<open>null\<close>.
\<close>

datatype 'a js = Undefined | Null | Val 'a

text \<open>Truthiness, as \<^verbatim>\<open>!x\<close>, \<^verbatim>\<open>&&\<close>, \<^verbatim>\<open>||\<close> and \<^verbatim>\<open>if\<close> test it.\<close>

fun truthy_string :: "js_string js \<Rightarrow> bool" where
  "truthy_string (Val s) = (s \<noteq> [])"
| "truthy_string _ = False"

fun truthy_bool :: "bool js \<Rightarrow> bool" where
  "truthy_bool (Val b) = b"
| "truthy_bool _ = False"

text \<open>Optional chaining \<^verbatim>\<open>x?.f\<close>, for a field \<open>f\<close> that is itself optional.\<close>

fun opt_chain :: "'a js \<Rightarrow> ('a \<Rightarrow> 'b js) \<Rightarrow> 'b js" where
  "opt_chain (Val x) f = f x"
| "opt_chain _ f = Undefined"

text \<open>
  \<^verbatim>\<open>String.prototype.trim\<close> removes the code units of the ECMAScript productions
  WhiteSpace and LineTerminator from both ends.
\<close>

definition js_whitespace :: "code_unit \<Rightarrow> bool" where
  "js_whitespace c \<longleftrightarrow>
     c = 0x0009 \<or> c = 0x000A \<or> c = 0x000B \<or> c = 0x000C \<or> c = 0x000D \<or> c = 0x0020 \<or>
     c = 0x00A0 \<or> c = 0x1680 \<or> (0x2000 \<le> c \<and> c \<le> 0x200A) \<or> c = 0x2028 \<or>
     c = 0x2029 \<or> c = 0x202F \<or> c = 0x205F \<or> c = 0x3000 \<or> c = 0xFEFF"

definition trim :: "js_string \<Rightarrow> js_string" where
  "trim s = rev (dropWhile js_whitespace (rev (dropWhile js_whitespace s)))"

subsection \<open>Models, props and state\<close>

text \<open>
  Modelled from the spec: the interfaces \<^verbatim>\<open>IDVPLocalClaimInterface\<close> and
  \<^verbatim>\<open>IDVPClaimMappingInterface\<close> are imported from \<^verbatim>\<open>../../../models\<close>, which is
  not among the sources. The spec gives a local attribute the fields id, displayName and
  uri, and a mapping an external value and a local attribute; the component reads them
  as \<^verbatim>\<open>id\<close>, \<^verbatim>\<open>displayName\<close>, \<^verbatim>\<open>uri\<close>, \<^verbatim>\<open>idvpClaim\<close> and
  \<^verbatim>\<open>localClaim\<close>, and guards against each of them being absent.
\<close>

record IDVPLocalClaimInterface =
  claim_id :: "js_string js"
  displayName :: "js_string js"
  uri :: "js_string js"

record IDVPClaimMappingInterface =
  idvpClaim :: "js_string js"
  localClaim :: "IDVPLocalClaimInterface js"

text \<open>
  \<^verbatim>\<open>AttributeMappingListItemProps\<close>. The callback \<^verbatim>\<open>onSubmit\<close> is not a field:
  its calls are returned by the submission handler.
\<close>

record AttributeMappingListItemProps =
  availableAttributeList :: "IDVPLocalClaimInterface list js"
  alreadyMappedAttributesList :: "IDVPClaimMappingInterface list"
  editingMode :: "bool js"
  mapping :: "IDVPClaimMappingInterface js"

text \<open>The four \<^verbatim>\<open>useState\<close> cells of the component.\<close>

record State =
  copyOfAttrs :: "IDVPLocalClaimInterface list"
  mappedInputValue :: "js_string js"
  selectedLocalAttributeInputValue :: "js_string js"
  mappingHasError :: "bool js"

definition initialState :: State where
  "initialState =
     \<lparr>copyOfAttrs = [], mappedInputValue = Undefined,
      selectedLocalAttributeInputValue = Undefined, mappingHasError = Undefined\<rparr>"

subsection \<open>Validation of the external attribute field\<close>

text \<open>
  \<^verbatim>\<open>FormValidation\<close> belongs to \<^verbatim>\<open>@wso2is/validation\<close>, which is not among
  the sources: its two format checks are taken as they come, any two predicates on
  strings.
\<close>

record FormValidation =
  url :: "js_string \<Rightarrow> bool"
  isValidResourceName :: "js_string \<Rightarrow> bool"

definition toBits :: "bool \<Rightarrow> int" where
  "toBits bool = (if bool then 1 else 0)"

text \<open>
  What the validation returns: \<open>None\<close> is \<^verbatim>\<open>undefined\<close>, no error. The two
  constants of \<^verbatim>\<open>FieldConstants\<close> are declared in \<^verbatim>\<open>@wso2is/form\<close>, which is
  not among the sources; they are kept as the names the code uses, two error values
  that differ from each other and from every message. The third error is the message
  the component writes out itself.
\<close>

datatype field_error = FIELD_REQUIRED_ERROR | INVALID_RESOURCE_ERROR | Message js_string

definition ALREADY_MAPPED :: js_string where
  "ALREADY_MAPPED = lit ''There's already a attribute mapped with this name.''"

text \<open>
  The \<^verbatim>\<open>validation\<close> callback of the \<^verbatim>\<open>mappedValue\<close> input. The result is the
  returned error together with the state after \<^verbatim>\<open>setMappingHasError\<close>.
\<close>

definition validation ::
  "FormValidation \<Rightarrow> AttributeMappingListItemProps \<Rightarrow> js_string js \<Rightarrow> State \<Rightarrow>
   field_error option \<times> State" where
  "validation FormValidation props value st =
     (case value of
        Val s \<Rightarrow>
          if \<not> truthy_string (Val s) \<or> \<not> truthy_string (Val (trim s)) then
            (Some FIELD_REQUIRED_ERROR, st\<lparr>mappingHasError := Val True\<rparr>)
          else if toBits (\<not> url FormValidation s) AND
                  toBits (\<not> isValidResourceName FormValidation s) \<noteq> 0 then
            (Some INVALID_RESOURCE_ERROR, st\<lparr>mappingHasError := Val True\<rparr>)
          else
            let mappedValues = set (map idvpClaim (alreadyMappedAttributesList props)) in
            if Val s \<in> mappedValues then
              if truthy_bool (editingMode props) \<and> opt_chain (mapping props) idvpClaim = Val s then
                (None, st\<lparr>mappingHasError := Val False\<rparr>)
              else
                (Some (Message ALREADY_MAPPED), st\<lparr>mappingHasError := Val True\<rparr>)
            else
              (None, st\<lparr>mappingHasError := Val False\<rparr>)
      | _ \<Rightarrow> (Some FIELD_REQUIRED_ERROR, st\<lparr>mappingHasError := Val True\<rparr>))"

subsection \<open>Effects\<close>

datatype error = TypeError

text \<open>
  The effect that runs once, after the first render. \<^verbatim>\<open>mapping?.localClaim.id\<close>
  stops at an absent mapping, and raises a TypeError for a mapping without a local
  claim.
\<close>

definition effectMount :: "AttributeMappingListItemProps \<Rightarrow> State \<Rightarrow> error + State" where
  "effectMount props st =
     (if truthy_bool (editingMode props) then
        (case mapping props of
           Val m \<Rightarrow>
             (case localClaim m of
                Val l \<Rightarrow>
                  Inr (st\<lparr>mappedInputValue := idvpClaim m,
                          selectedLocalAttributeInputValue := claim_id l\<rparr>)
              | _ \<Rightarrow> Inl TypeError)
         | _ \<Rightarrow>
             Inr (st\<lparr>mappedInputValue := Undefined,
                     selectedLocalAttributeInputValue := Undefined\<rparr>))
      else Inr st)"

text \<open>The effect on \<^verbatim>\<open>[ availableAttributeList ]\<close>: the copy of the attributes.\<close>

definition effectAvailableAttributeList ::
  "AttributeMappingListItemProps \<Rightarrow> State \<Rightarrow> State" where
  "effectAvailableAttributeList props st =
     (case availableAttributeList props of
        Val available \<Rightarrow>
          let copy = available;
              copy =
                (if truthy_bool (editingMode props) \<and>
                    truthy_string (opt_chain (mapping props) idvpClaim) then
                   (case opt_chain (mapping props) localClaim of
                      Val l \<Rightarrow> copy @ [l]
                    | _ \<Rightarrow> copy)
                 else copy)
          in st\<lparr>copyOfAttrs := copy\<rparr>
      | _ \<Rightarrow> st)"

text \<open>
  Mounting runs both effects, in the order of their declaration. At a later render
  React runs the second effect again when its dependency \<^verbatim>\<open>availableAttributeList\<close>
  is not the value of the previous render; that comparison is React's, and its outcome
  is the argument \<open>changed\<close>.
\<close>

definition mount :: "AttributeMappingListItemProps \<Rightarrow> error + State" where
  "mount props =
     (case effectMount props initialState of
        Inl e \<Rightarrow> Inl e
      | Inr st \<Rightarrow> Inr (effectAvailableAttributeList props st))"

definition rerender :: "bool \<Rightarrow> AttributeMappingListItemProps \<Rightarrow> State \<Rightarrow> State" where
  "rerender changed props st =
     (if changed then effectAvailableAttributeList props st else st)"

subsection \<open>Form submission\<close>

text \<open>The values of the form, as \<^verbatim>\<open>onFormSub\<close> reads them.\<close>

record FormValues =
  mappedValue :: "js_string js"
  localClaimId :: "js_string js"

text \<open>The calls \<^verbatim>\<open>onFormSub\<close> makes on the \<^verbatim>\<open>FormApi\<close> of final-form.\<close>

datatype form_call = Change js_string js_string | ResetFieldState js_string

text \<open>\<^verbatim>\<open>Array.prototype.find\<close>: the first element that satisfies the test.\<close>

definition js_find :: "('a \<Rightarrow> bool) \<Rightarrow> 'a list \<Rightarrow> 'a js" where
  "js_find p xs = (case List.find p xs of None \<Rightarrow> Undefined | Some x \<Rightarrow> Val x)"

text \<open>
  What a submission does: the calls of the parent's \<^verbatim>\<open>onSubmit\<close>, the calls on the
  form, and the state after the setters.
\<close>

record Submission =
  onSubmitCalls :: "IDVPClaimMappingInterface list"
  formCalls :: "form_call list"
  nextState :: State

definition onFormSub ::
  "AttributeMappingListItemProps \<Rightarrow> FormValues \<Rightarrow> State \<Rightarrow> Submission" where
  "onFormSub props values st =
     (let newAttributeMapping =
            \<lparr>idvpClaim = mappedValue values,
             localClaim =
               js_find (\<lambda>claim. claim_id claim = localClaimId values) (copyOfAttrs st)\<rparr>
      in if \<not> truthy_bool (editingMode props) then
           \<lparr>onSubmitCalls = [newAttributeMapping],
            formCalls =
              [Change (lit ''mappedValue'') (lit ''''),
               Change (lit ''localClaimId'') (lit ''''),
               ResetFieldState (lit ''mappedValue''),
               ResetFieldState (lit ''localClaimId'')],
            nextState =
              st\<lparr>mappedInputValue := Val (lit ''''),
                 selectedLocalAttributeInputValue := Val (lit '''')\<rparr>\<rparr>
         else
           \<lparr>onSubmitCalls = [newAttributeMapping], formCalls = [], nextState = st\<rparr>)"

subsection \<open>The submit buttons\<close>

datatype button_type = primary_btn | secondary_btn

record FieldButton =
  disabled :: bool
  buttonType :: button_type

text \<open>
  The submit buttons that a render shows: the icon button of the editing mode, then the
  button below the fields that is there otherwise. Each carries its own
  \<^verbatim>\<open>disabled\<close> expression.
\<close>

definition submitButtons :: "AttributeMappingListItemProps \<Rightarrow> State \<Rightarrow> FieldButton list" where
  "submitButtons props st =
     (if truthy_bool (editingMode props) then
        [\<lparr>disabled =
            (truthy_bool (mappingHasError st) \<or>
             \<not> truthy_string (mappedInputValue st) \<or>
             \<not> truthy_string (selectedLocalAttributeInputValue st)),
          buttonType = secondary_btn\<rparr>]
      else []) @
     (if \<not> truthy_bool (editingMode props) then
        [\<lparr>disabled =
            (truthy_bool (mappingHasError st) \<or>
             \<not> truthy_string (mappedInputValue st) \<or>
             \<not> truthy_string (selectedLocalAttributeInputValue st)),
          buttonType = primary_btn\<rparr>]
      else [])"

subsection \<open>The claim's words for near duplicates\<close>

text \<open>
  Not part of the component: the notion of two strings that differ only by surrounding
  whitespace or by the case of ASCII letters, used to talk about inputs that the
  duplicate check does not relate.
\<close>

definition ascii_lower :: "code_unit \<Rightarrow> code_unit" where
  "ascii_lower c = (if 0x41 \<le> c \<and> c \<le> 0x5A then c + 0x20 else c)"

definition differs_only_by_whitespace_or_case :: "js_string \<Rightarrow> js_string \<Rightarrow> bool" where
  "differs_only_by_whitespace_or_case s e \<longleftrightarrow>
     s \<noteq> e \<and> map ascii_lower (trim s) = map ascii_lower (trim e)"

section \<open>Properties\<close>

subsection \<open>Auxiliary facts\<close>

lemma toBits_AND_iff: "toBits a AND toBits b \<noteq> 0 \<longleftrightarrow> a \<and> b"
  by (simp add: toBits_def)

lemma dropWhile_all_iff: "(\<forall>x\<in>set (dropWhile p xs). p x) \<longleftrightarrow> (\<forall>x\<in>set xs. p x)"
  by (induction xs) auto

lemma trim_Nil_iff: "trim s = [] \<longleftrightarrow> (\<forall>c\<in>set s. js_whitespace c)"
  by (simp add: trim_def dropWhile_all_iff)

lemma truthy_string_trim_iff:
  "truthy_string (Val s) \<and> truthy_string (Val (trim s)) \<longleftrightarrow> (\<exists>c\<in>set s. \<not> js_whitespace c)"
  by (auto simp: trim_Nil_iff)

lemma truthy_bool_iff: "truthy_bool b \<longleftrightarrow> b = Val True"
  by (cases b) auto

lemma truthy_string_iff: "truthy_string v \<longleftrightarrow> (\<exists>s. v = Val s \<and> s \<noteq> [])"
  by (cases v) auto

lemma falsy_string_iff: "\<not> truthy_string v \<longleftrightarrow> v = Undefined \<or> v = Null \<or> v = Val []"
  by (cases v) auto

lemma opt_chain_eq_Val_iff: "opt_chain x f = Val v \<longleftrightarrow> (\<exists>m. x = Val m \<and> f m = Val v)"
  by (cases x) auto

text \<open>The validation of a string that is not blank, without the bit operations.\<close>

lemma validation_nonblank:
  assumes "\<exists>c\<in>set s. \<not> js_whitespace c"
  shows "validation fv props (Val s) st =
    (if \<not> url fv s \<and> \<not> isValidResourceName fv s then
       (Some INVALID_RESOURCE_ERROR, st\<lparr>mappingHasError := Val True\<rparr>)
     else if Val s \<in> idvpClaim ` set (alreadyMappedAttributesList props) then
       if truthy_bool (editingMode props) \<and> opt_chain (mapping props) idvpClaim = Val s then
         (None, st\<lparr>mappingHasError := Val False\<rparr>)
       else (Some (Message ALREADY_MAPPED), st\<lparr>mappingHasError := Val True\<rparr>)
     else (None, st\<lparr>mappingHasError := Val False\<rparr>))"
proof -
  from assms have "truthy_string (Val s) \<and> truthy_string (Val (trim s))"
    by (simp only: truthy_string_trim_iff)
  then show ?thesis
    unfolding validation_def by (simp add: toBits_AND_iff Let_def)
qed

lemma js_find_first:
  assumes "\<forall>x\<in>set xs. \<not> p x" and "p c"
  shows "js_find p (xs @ c # ys) = Val c"
  using assms by (induction xs) (simp_all add: js_find_def)

lemma js_find_none:
  assumes "\<forall>x\<in>set xs. \<not> p x"
  shows "js_find p xs = Undefined"
  using assms by (induction xs) (simp_all add: js_find_def)

subsection \<open>Validation\<close>

text \<open>
  C1. A string that is not blank (not empty and not made of whitespace only), that at
  least one of the two format checks accepts, and that is not the external value of an
  already mapped attribute, passes the validation: no error is returned and the error
  flag is set to false.
\<close>

theorem validation_accepts:
  assumes "s \<noteq> []" and "\<exists>c\<in>set s. \<not> js_whitespace c"
    and "url fv s \<or> isValidResourceName fv s"
    and "Val s \<notin> idvpClaim ` set (alreadyMappedAttributesList props)"
  shows "validation fv props (Val s) st = (None, st\<lparr>mappingHasError := Val False\<rparr>)"
  using assms(3,4) by (auto simp add: validation_nonblank [OF assms(2)])

theorem validation_accepts_witness:
  "lit ''urn:y'' \<noteq> [] \<and> (\<exists>c\<in>set (lit ''urn:y''). \<not> js_whitespace c) \<and>
   validation \<lparr>url = (\<lambda>s. 0x3A \<in> set s), isValidResourceName = (\<lambda>s. False)\<rparr>
     \<lparr>availableAttributeList =
        Val [\<lparr>claim_id = Val (lit ''a1''), displayName = Undefined, uri = Val (lit ''urn:x'')\<rparr>],
      alreadyMappedAttributesList = [], editingMode = Undefined, mapping = Undefined\<rparr>
     (Val (lit ''urn:y'')) initialState =
   (None, initialState\<lparr>mappingHasError := Val False\<rparr>)"
  using validation_accepts [of "lit ''urn:y''"
      "\<lparr>url = (\<lambda>s. 0x3A \<in> set s), isValidResourceName = (\<lambda>s. False)\<rparr>"
      "\<lparr>availableAttributeList =
         Val [\<lparr>claim_id = Val (lit ''a1''), displayName = Undefined, uri = Val (lit ''urn:x'')\<rparr>],
        alreadyMappedAttributesList = [], editingMode = Undefined, mapping = Undefined\<rparr>"
      initialState]
  by (simp add: lit_def js_whitespace_def)

text \<open>
  C2. A value that is undefined, null, empty or made of whitespace only gets the
  required-field error and sets the error flag, whatever the already mapped attributes,
  the editing mode, the current mapping and the format checks are: this test comes
  before the format test and the duplicate test.
\<close>

theorem validation_required:
  assumes "value = Undefined \<or> value = Null \<or>
           (\<exists>s. value = Val s \<and> (\<forall>c\<in>set s. js_whitespace c))"
  shows "validation fv props value st =
           (Some FIELD_REQUIRED_ERROR, st\<lparr>mappingHasError := Val True\<rparr>)"
  using assms unfolding validation_def
  by (auto simp: trim_Nil_iff [THEN iffD2] split: js.splits)

theorem validation_required_witness:
  "list_all js_whitespace (lit '' '') \<and>
   validation \<lparr>url = (\<lambda>s. True), isValidResourceName = (\<lambda>s. True)\<rparr>
     \<lparr>availableAttributeList = Val [],
      alreadyMappedAttributesList = [\<lparr>idvpClaim = Val (lit '' ''), localClaim = Undefined\<rparr>],
      editingMode = Val True,
      mapping = Val \<lparr>idvpClaim = Val (lit '' ''), localClaim = Undefined\<rparr>\<rparr>
     (Val (lit '' '')) initialState =
   (Some FIELD_REQUIRED_ERROR, initialState\<lparr>mappingHasError := Val True\<rparr>) \<and>
   validation \<lparr>url = (\<lambda>s. True), isValidResourceName = (\<lambda>s. True)\<rparr>
     \<lparr>availableAttributeList = Val [], alreadyMappedAttributesList = [],
      editingMode = Undefined, mapping = Undefined\<rparr>
     Undefined initialState =
   (Some FIELD_REQUIRED_ERROR, initialState\<lparr>mappingHasError := Val True\<rparr>)"
  using validation_required [of "Val (lit '' '')"
      "\<lparr>url = (\<lambda>s. True), isValidResourceName = (\<lambda>s. True)\<rparr>"
      "\<lparr>availableAttributeList = Val [],
        alreadyMappedAttributesList = [\<lparr>idvpClaim = Val (lit '' ''), localClaim = Undefined\<rparr>],
        editingMode = Val True,
        mapping = Val \<lparr>idvpClaim = Val (lit '' ''), localClaim = Undefined\<rparr>\<rparr>"
      initialState]
    validation_required [of Undefined
      "\<lparr>url = (\<lambda>s. True), isValidResourceName = (\<lambda>s. True)\<rparr>"
      "\<lparr>availableAttributeList = Val [], alreadyMappedAttributesList = [],
        editingMode = Undefined, mapping = Undefined\<rparr>"
      initialState]
  by (simp add: lit_def js_whitespace_def)

text \<open>
  C3. For a value that is not blank, the validation returns the invalid-resource error
  exactly when the value fails both the URL check and the resource-name check: one
  check that accepts is enough to get past the format test.
\<close>

theorem validation_invalid_format_iff:
  assumes "\<exists>c\<in>set s. \<not> js_whitespace c"
  shows "fst (validation fv props (Val s) st) = Some INVALID_RESOURCE_ERROR \<longleftrightarrow>
         \<not> url fv s \<and> \<not> isValidResourceName fv s"
  by (simp add: validation_nonblank [OF assms])

theorem validation_invalid_format_iff_witness:
  "(\<exists>c\<in>set (lit ''a b''). \<not> js_whitespace c) \<and>
   fst (validation \<lparr>url = (\<lambda>s. 0x3A \<in> set s), isValidResourceName = (\<lambda>s. 0x20 \<notin> set s)\<rparr>
     \<lparr>availableAttributeList = Val [], alreadyMappedAttributesList = [],
      editingMode = Undefined, mapping = Undefined\<rparr>
     (Val (lit ''a b'')) initialState) = Some INVALID_RESOURCE_ERROR \<and>
   (\<exists>c\<in>set (lit ''email''). \<not> js_whitespace c) \<and>
   fst (validation \<lparr>url = (\<lambda>s. 0x3A \<in> set s), isValidResourceName = (\<lambda>s. 0x20 \<notin> set s)\<rparr>
     \<lparr>availableAttributeList = Val [], alreadyMappedAttributesList = [],
      editingMode = Undefined, mapping = Undefined\<rparr>
     (Val (lit ''email'')) initialState) \<noteq> Some INVALID_RESOURCE_ERROR"
  using validation_invalid_format_iff [of "lit ''a b''"
      "\<lparr>url = (\<lambda>s. 0x3A \<in> set s), isValidResourceName = (\<lambda>s. 0x20 \<notin> set s)\<rparr>"
      "\<lparr>availableAttributeList = Val [], alreadyMappedAttributesList = [],
        editingMode = Undefined, mapping = Undefined\<rparr>"
      initialState]
    validation_invalid_format_iff [of "lit ''email''"
      "\<lparr>url = (\<lambda>s. 0x3A \<in> set s), isValidResourceName = (\<lambda>s. 0x20 \<notin> set s)\<rparr>"
      "\<lparr>availableAttributeList = Val [], alreadyMappedAttributesList = [],
        editingMode = Undefined, mapping = Undefined\<rparr>"
      initialState]
  by (simp add: lit_def js_whitespace_def)

text \<open>
  C4. For a value that is not blank, passes the format test and is the external value of
  an already mapped attribute: in editing mode, when the value is the stored external
  value of the mapping being edited, the validation passes and sets the error flag to
  false; in every other case it returns the already-mapped error and sets the flag.
\<close>

theorem validation_already_mapped:
  assumes "\<exists>c\<in>set s. \<not> js_whitespace c"
    and "url fv s \<or> isValidResourceName fv s"
    and "Val s \<in> idvpClaim ` set (alreadyMappedAttributesList props)"
  shows "(editingMode props = Val True \<and> (\<exists>m. mapping props = Val m \<and> idvpClaim m = Val s) \<longrightarrow>
            validation fv props (Val s) st = (None, st\<lparr>mappingHasError := Val False\<rparr>)) \<and>
         (\<not> (editingMode props = Val True \<and>
             (\<exists>m. mapping props = Val m \<and> idvpClaim m = Val s)) \<longrightarrow>
            validation fv props (Val s) st =
              (Some (Message ALREADY_MAPPED), st\<lparr>mappingHasError := Val True\<rparr>))"
  using assms(2,3)
  by (auto simp add: validation_nonblank [OF assms(1)] truthy_bool_iff opt_chain_eq_Val_iff)

theorem validation_already_mapped_witness:
  "(\<exists>c\<in>set (lit ''email''). \<not> js_whitespace c) \<and>
   Val (lit ''email'') \<in> idvpClaim ` set [\<lparr>idvpClaim = Val (lit ''email''), localClaim = Undefined\<rparr>] \<and>
   validation \<lparr>url = (\<lambda>s. 0x3A \<in> set s), isValidResourceName = (\<lambda>s. 0x20 \<notin> set s)\<rparr>
     \<lparr>availableAttributeList = Val [],
      alreadyMappedAttributesList = [\<lparr>idvpClaim = Val (lit ''email''), localClaim = Undefined\<rparr>],
      editingMode = Val True,
      mapping = Val \<lparr>idvpClaim = Val (lit ''email''), localClaim = Undefined\<rparr>\<rparr>
     (Val (lit ''email'')) initialState =
   (None, initialState\<lparr>mappingHasError := Val False\<rparr>) \<and>
   validation \<lparr>url = (\<lambda>s. 0x3A \<in> set s), isValidResourceName = (\<lambda>s. 0x20 \<notin> set s)\<rparr>
     \<lparr>availableAttributeList = Val [],
      alreadyMappedAttributesList = [\<lparr>idvpClaim = Val (lit ''email''), localClaim = Undefined\<rparr>],
      editingMode = Undefined, mapping = Undefined\<rparr>
     (Val (lit ''email'')) initialState =
   (Some (Message ALREADY_MAPPED), initialState\<lparr>mappingHasError := Val True\<rparr>)"
  using validation_already_mapped [of "lit ''email''"
      "\<lparr>url = (\<lambda>s. 0x3A \<in> set s), isValidResourceName = (\<lambda>s. 0x20 \<notin> set s)\<rparr>"
      "\<lparr>availableAttributeList = Val [],
        alreadyMappedAttributesList = [\<lparr>idvpClaim = Val (lit ''email''), localClaim = Undefined\<rparr>],
        editingMode = Val True,
        mapping = Val \<lparr>idvpClaim = Val (lit ''email''), localClaim = Undefined\<rparr>\<rparr>"
      initialState]
    validation_already_mapped [of "lit ''email''"
      "\<lparr>url = (\<lambda>s. 0x3A \<in> set s), isValidResourceName = (\<lambda>s. 0x20 \<notin> set s)\<rparr>"
      "\<lparr>availableAttributeList = Val [],
        alreadyMappedAttributesList = [\<lparr>idvpClaim = Val (lit ''email''), localClaim = Undefined\<rparr>],
        editingMode = Undefined, mapping = Undefined\<rparr>"
      initialState]
  by (simp add: lit_def js_whitespace_def)

subsection \<open>The copy of the attributes\<close>

text \<open>
  C5. For an available attribute list \<open>A\<close>, the effect sets the copy of the attributes
  to \<open>A\<close> with the local claim of the mapping appended once, at the end, when the
  component is in editing mode and the mapping has a non-empty external value and a
  local claim; in every other case the copy is \<open>A\<close> itself. Nothing else of the state
  changes. A render at which the available list has changed runs the effect again, and
  a render at which it has not leaves the state alone.
\<close>

theorem copyOfAttrs_derivation:
  assumes "availableAttributeList props = Val A"
  shows "(editingMode props = Val True \<and> mapping props = Val M \<and> idvpClaim M = Val e \<and>
          e \<noteq> [] \<and> localClaim M = Val l \<longrightarrow>
            effectAvailableAttributeList props st = st\<lparr>copyOfAttrs := A @ [l]\<rparr>) \<and>
         (\<not> (editingMode props = Val True \<and>
             (\<exists>M e l. mapping props = Val M \<and> idvpClaim M = Val e \<and> e \<noteq> [] \<and>
                localClaim M = Val l)) \<longrightarrow>
            effectAvailableAttributeList props st = st\<lparr>copyOfAttrs := A\<rparr>) \<and>
         rerender True props st = effectAvailableAttributeList props st \<and>
         rerender False props st = st"
  using assms unfolding effectAvailableAttributeList_def rerender_def
  by (auto simp: truthy_bool_iff truthy_string_iff opt_chain_eq_Val_iff Let_def split: js.splits)

theorem copyOfAttrs_derivation_witness:
  "effectAvailableAttributeList
     \<lparr>availableAttributeList =
        Val [\<lparr>claim_id = Val (lit ''a1''), displayName = Undefined, uri = Val (lit ''urn:x'')\<rparr>],
      alreadyMappedAttributesList = [], editingMode = Val True,
      mapping =
        Val \<lparr>idvpClaim = Val (lit ''email''),
             localClaim =
               Val \<lparr>claim_id = Val (lit ''a2''), displayName = Undefined,
                    uri = Val (lit ''urn:z'')\<rparr>\<rparr>\<rparr>
     initialState =
   initialState
     \<lparr>copyOfAttrs :=
        [\<lparr>claim_id = Val (lit ''a1''), displayName = Undefined, uri = Val (lit ''urn:x'')\<rparr>,
         \<lparr>claim_id = Val (lit ''a2''), displayName = Undefined, uri = Val (lit ''urn:z'')\<rparr>]\<rparr> \<and>
   effectAvailableAttributeList
     \<lparr>availableAttributeList =
        Val [\<lparr>claim_id = Val (lit ''a1''), displayName = Undefined, uri = Val (lit ''urn:x'')\<rparr>],
      alreadyMappedAttributesList = [], editingMode = Undefined, mapping = Undefined\<rparr>
     initialState =
   initialState
     \<lparr>copyOfAttrs :=
        [\<lparr>claim_id = Val (lit ''a1''), displayName = Undefined, uri = Val (lit ''urn:x'')\<rparr>]\<rparr>"
  using copyOfAttrs_derivation [of
      "\<lparr>availableAttributeList =
         Val [\<lparr>claim_id = Val (lit ''a1''), displayName = Undefined, uri = Val (lit ''urn:x'')\<rparr>],
        alreadyMappedAttributesList = [], editingMode = Val True,
        mapping =
          Val \<lparr>idvpClaim = Val (lit ''email''),
               localClaim =
                 Val \<lparr>claim_id = Val (lit ''a2''), displayName = Undefined,
                      uri = Val (lit ''urn:z'')\<rparr>\<rparr>\<rparr>"
      "[\<lparr>claim_id = Val (lit ''a1''), displayName = Undefined, uri = Val (lit ''urn:x'')\<rparr>]"
      "\<lparr>idvpClaim = Val (lit ''email''),
        localClaim =
          Val \<lparr>claim_id = Val (lit ''a2''), displayName = Undefined, uri = Val (lit ''urn:z'')\<rparr>\<rparr>"
      "lit ''email''"
      "\<lparr>claim_id = Val (lit ''a2''), displayName = Undefined, uri = Val (lit ''urn:z'')\<rparr>"
      initialState]
    copyOfAttrs_derivation [of
      "\<lparr>availableAttributeList =
         Val [\<lparr>claim_id = Val (lit ''a1''), displayName = Undefined, uri = Val (lit ''urn:x'')\<rparr>],
        alreadyMappedAttributesList = [], editingMode = Undefined, mapping = Undefined\<rparr>"
      "[\<lparr>claim_id = Val (lit ''a1''), displayName = Undefined, uri = Val (lit ''urn:x'')\<rparr>]"
      "\<lparr>idvpClaim = Undefined, localClaim = Undefined\<rparr>" "[]"
      "\<lparr>claim_id = Undefined, displayName = Undefined, uri = Undefined\<rparr>" initialState]
  by (simp add: lit_def)

subsection \<open>Submission\<close>

text \<open>
  C6. The submission handler calls \<^verbatim>\<open>onSubmit\<close> exactly once, with the one mapping whose
  external value is the submitted \<^verbatim>\<open>mappedValue\<close> and whose local claim is the element
  of the copy of the attributes whose id is the submitted \<^verbatim>\<open>localClaimId\<close> (the first
  one, should several elements carry that id).
\<close>

theorem onFormSub_onSubmit:
  assumes "copyOfAttrs st = xs @ c # ys"
    and "claim_id c = localClaimId values"
    and "\<forall>x\<in>set xs. claim_id x \<noteq> localClaimId values"
  shows "onSubmitCalls (onFormSub props values st) =
           [\<lparr>idvpClaim = mappedValue values, localClaim = Val c\<rparr>]"
  using assms unfolding onFormSub_def
  by (simp add: Let_def js_find_first)

theorem onFormSub_onSubmit_witness:
  "mount
     \<lparr>availableAttributeList =
        Val [\<lparr>claim_id = Val (lit ''a1''), displayName = Undefined, uri = Val (lit ''urn:x'')\<rparr>],
      alreadyMappedAttributesList = [], editingMode = Undefined, mapping = Undefined\<rparr> =
   Inr (initialState
     \<lparr>copyOfAttrs :=
        [\<lparr>claim_id = Val (lit ''a1''), displayName = Undefined, uri = Val (lit ''urn:x'')\<rparr>]\<rparr>) \<and>
   onSubmitCalls
     (onFormSub
        \<lparr>availableAttributeList =
           Val [\<lparr>claim_id = Val (lit ''a1''), displayName = Undefined, uri = Val (lit ''urn:x'')\<rparr>],
         alreadyMappedAttributesList = [], editingMode = Undefined, mapping = Undefined\<rparr>
        \<lparr>mappedValue = Val (lit ''urn:y''), localClaimId = Val (lit ''a1'')\<rparr>
        (initialState
          \<lparr>copyOfAttrs :=
             [\<lparr>claim_id = Val (lit ''a1''), displayName = Undefined,
               uri = Val (lit ''urn:x'')\<rparr>]\<rparr>)) =
   [\<lparr>idvpClaim = Val (lit ''urn:y''),
     localClaim =
       Val \<lparr>claim_id = Val (lit ''a1''), displayName = Undefined, uri = Val (lit ''urn:x'')\<rparr>\<rparr>]"
  using onFormSub_onSubmit [of
      "initialState
        \<lparr>copyOfAttrs :=
           [\<lparr>claim_id = Val (lit ''a1''), displayName = Undefined, uri = Val (lit ''urn:x'')\<rparr>]\<rparr>"
      "[]"
      "\<lparr>claim_id = Val (lit ''a1''), displayName = Undefined, uri = Val (lit ''urn:x'')\<rparr>"
      "[]"
      "\<lparr>mappedValue = Val (lit ''urn:y''), localClaimId = Val (lit ''a1'')\<rparr>"
      "\<lparr>availableAttributeList =
         Val [\<lparr>claim_id = Val (lit ''a1''), displayName = Undefined, uri = Val (lit ''urn:x'')\<rparr>],
        alreadyMappedAttributesList = [], editingMode = Undefined, mapping = Undefined\<rparr>"]
  by (simp add: mount_def effectMount_def effectAvailableAttributeList_def initialState_def)

text \<open>
  C9. When no element of the copy of the attributes has the submitted
  \<^verbatim>\<open>localClaimId\<close> as its id, the handler still calls \<^verbatim>\<open>onSubmit\<close> exactly once: the
  mapping has the submitted \<^verbatim>\<open>mappedValue\<close> as external value and no local claim.
\<close>

theorem onFormSub_no_match:
  assumes "\<forall>c\<in>set (copyOfAttrs st). claim_id c \<noteq> localClaimId values"
  shows "onSubmitCalls (onFormSub props values st) =
           [\<lparr>idvpClaim = mappedValue values, localClaim = Undefined\<rparr>]"
  unfolding onFormSub_def
  by (simp add: Let_def js_find_none [OF assms])

theorem onFormSub_no_match_witness:
  "onSubmitCalls
     (onFormSub
        \<lparr>availableAttributeList =
           Val [\<lparr>claim_id = Val (lit ''a1''), displayName = Undefined, uri = Val (lit ''urn:x'')\<rparr>],
         alreadyMappedAttributesList = [], editingMode = Undefined, mapping = Undefined\<rparr>
        \<lparr>mappedValue = Val (lit ''urn:y''), localClaimId = Val (lit ''a7'')\<rparr>
        (initialState
          \<lparr>copyOfAttrs :=
             [\<lparr>claim_id = Val (lit ''a1''), displayName = Undefined,
               uri = Val (lit ''urn:x'')\<rparr>]\<rparr>)) =
   [\<lparr>idvpClaim = Val (lit ''urn:y''), localClaim = Undefined\<rparr>]"
  using onFormSub_no_match [of
      "initialState
        \<lparr>copyOfAttrs :=
           [\<lparr>claim_id = Val (lit ''a1''), displayName = Undefined, uri = Val (lit ''urn:x'')\<rparr>]\<rparr>"
      "\<lparr>mappedValue = Val (lit ''urn:y''), localClaimId = Val (lit ''a7'')\<rparr>"
      "\<lparr>availableAttributeList =
         Val [\<lparr>claim_id = Val (lit ''a1''), displayName = Undefined, uri = Val (lit ''urn:x'')\<rparr>],
        alreadyMappedAttributesList = [], editingMode = Undefined, mapping = Undefined\<rparr>"]
  by (simp add: lit_def)

text \<open>
  C7. After the call of \<^verbatim>\<open>onSubmit\<close>: outside the editing mode the handler sets both
  form fields to the empty string, resets the state of both fields, and sets both
  drafts of the component to the empty string; in editing mode it makes no call on the
  form and leaves the whole state of the component as it was.
\<close>

theorem onFormSub_reset:
  "(editingMode props \<noteq> Val True \<longrightarrow>
      nextState (onFormSub props values st) =
        st\<lparr>mappedInputValue := Val [], selectedLocalAttributeInputValue := Val []\<rparr> \<and>
      formCalls (onFormSub props values st) =
        [Change (lit ''mappedValue'') [], Change (lit ''localClaimId'') [],
         ResetFieldState (lit ''mappedValue''), ResetFieldState (lit ''localClaimId'')]) \<and>
   (editingMode props = Val True \<longrightarrow>
      nextState (onFormSub props values st) = st \<and>
      formCalls (onFormSub props values st) = [])"
  unfolding onFormSub_def
  by (simp add: Let_def truthy_bool_iff lit_def)

theorem onFormSub_reset_witness:
  "nextState
     (onFormSub
        \<lparr>availableAttributeList = Val [], alreadyMappedAttributesList = [],
         editingMode = Val False, mapping = Undefined\<rparr>
        \<lparr>mappedValue = Val (lit ''urn:y''), localClaimId = Val (lit ''a1'')\<rparr>
        \<lparr>copyOfAttrs = [], mappedInputValue = Val (lit ''urn:y''),
         selectedLocalAttributeInputValue = Val (lit ''a1''), mappingHasError = Val False\<rparr>) =
   \<lparr>copyOfAttrs = [], mappedInputValue = Val [],
    selectedLocalAttributeInputValue = Val [], mappingHasError = Val False\<rparr> \<and>
   nextState
     (onFormSub
        \<lparr>availableAttributeList = Val [], alreadyMappedAttributesList = [],
         editingMode = Val True, mapping = Undefined\<rparr>
        \<lparr>mappedValue = Val (lit ''urn:y''), localClaimId = Val (lit ''a1'')\<rparr>
        \<lparr>copyOfAttrs = [], mappedInputValue = Val (lit ''urn:y''),
         selectedLocalAttributeInputValue = Val (lit ''a1''), mappingHasError = Val False\<rparr>) =
   \<lparr>copyOfAttrs = [], mappedInputValue = Val (lit ''urn:y''),
    selectedLocalAttributeInputValue = Val (lit ''a1''), mappingHasError = Val False\<rparr>"
  using onFormSub_reset [of
      "\<lparr>availableAttributeList = Val [], alreadyMappedAttributesList = [],
        editingMode = Val False, mapping = Undefined\<rparr>"
      "\<lparr>mappedValue = Val (lit ''urn:y''), localClaimId = Val (lit ''a1'')\<rparr>"
      "\<lparr>copyOfAttrs = [], mappedInputValue = Val (lit ''urn:y''),
        selectedLocalAttributeInputValue = Val (lit ''a1''), mappingHasError = Val False\<rparr>"]
    onFormSub_reset [of
      "\<lparr>availableAttributeList = Val [], alreadyMappedAttributesList = [],
        editingMode = Val True, mapping = Undefined\<rparr>"
      "\<lparr>mappedValue = Val (lit ''urn:y''), localClaimId = Val (lit ''a1'')\<rparr>"
      "\<lparr>copyOfAttrs = [], mappedInputValue = Val (lit ''urn:y''),
        selectedLocalAttributeInputValue = Val (lit ''a1''), mappingHasError = Val False\<rparr>"]
  by simp

subsection \<open>The submit buttons\<close>

text \<open>The flag after a validation says whether that validation returned an error.\<close>

lemma validation_mappingHasError:
  "mappingHasError (snd (validation fv props value st)) =
     Val (fst (validation fv props value st) \<noteq> None)"
  unfolding validation_def
  by (simp add: Let_def split: js.splits)

text \<open>
  C8. In every state of the component, and so in every state it can reach, a render
  shows exactly one submit button, the icon button in editing mode and the labelled
  button otherwise, and that button is disabled whenever the error flag is true, or the
  draft of the external value is empty, or no local attribute is selected; it is
  enabled in no other state. The flag is the outcome of the validation: in the state
  that a validation leaves, the flag is true exactly when that validation returned an
  error, so that after a failed validation every submit button of a render is
  disabled, whatever the drafts and the mode are. The submission handler and the effect
  on the available attributes leave the flag as the last validation set it.
\<close>

theorem submitButtons_disabled:
  "(\<exists>b. submitButtons props st = [b] \<and>
       buttonType b = (if editingMode props = Val True then secondary_btn else primary_btn) \<and>
       (disabled b \<longleftrightarrow>
          mappingHasError st = Val True \<or>
          mappedInputValue st \<in> {Undefined, Null, Val []} \<or>
          selectedLocalAttributeInputValue st \<in> {Undefined, Null, Val []})) \<and>
   mappingHasError (snd (validation fv props' value st)) =
     Val (fst (validation fv props' value st) \<noteq> None) \<and>
   (fst (validation fv props' value st) \<noteq> None \<longrightarrow>
      (\<forall>b\<in>set (submitButtons props (snd (validation fv props' value st))). disabled b)) \<and>
   mappingHasError (nextState (onFormSub props values st)) = mappingHasError st \<and>
   mappingHasError (rerender changed props st) = mappingHasError st"
proof (intro conjI)
  show "\<exists>b. submitButtons props st = [b] \<and>
       buttonType b = (if editingMode props = Val True then secondary_btn else primary_btn) \<and>
       (disabled b \<longleftrightarrow>
          mappingHasError st = Val True \<or>
          mappedInputValue st \<in> {Undefined, Null, Val []} \<or>
          selectedLocalAttributeInputValue st \<in> {Undefined, Null, Val []})"
    unfolding submitButtons_def
    by (auto simp: truthy_bool_iff falsy_string_iff)
next
  show "mappingHasError (snd (validation fv props' value st)) =
          Val (fst (validation fv props' value st) \<noteq> None)"
    by (rule validation_mappingHasError)
next
  show "fst (validation fv props' value st) \<noteq> None \<longrightarrow>
          (\<forall>b\<in>set (submitButtons props (snd (validation fv props' value st))). disabled b)"
    unfolding submitButtons_def
    by (auto simp: validation_mappingHasError)
next
  show "mappingHasError (nextState (onFormSub props values st)) = mappingHasError st"
    unfolding onFormSub_def by (simp add: Let_def)
next
  show "mappingHasError (rerender changed props st) = mappingHasError st"
    unfolding rerender_def effectAvailableAttributeList_def
    by (simp add: Let_def split: js.splits)
qed

theorem submitButtons_disabled_witness:
  "submitButtons
     \<lparr>availableAttributeList = Val [], alreadyMappedAttributesList = [],
      editingMode = Undefined, mapping = Undefined\<rparr>
     \<lparr>copyOfAttrs = [], mappedInputValue = Val (lit ''a b''),
      selectedLocalAttributeInputValue = Val (lit ''a1''), mappingHasError = Val True\<rparr> =
   [\<lparr>disabled = True, buttonType = primary_btn\<rparr>] \<and>
   submitButtons
     \<lparr>availableAttributeList = Val [], alreadyMappedAttributesList = [],
      editingMode = Val True, mapping = Undefined\<rparr>
     \<lparr>copyOfAttrs = [], mappedInputValue = Val (lit ''email''),
      selectedLocalAttributeInputValue = Val [], mappingHasError = Val False\<rparr> =
   [\<lparr>disabled = True, buttonType = secondary_btn\<rparr>] \<and>
   fst (validation \<lparr>url = (\<lambda>s. 0x3A \<in> set s), isValidResourceName = (\<lambda>s. 0x20 \<notin> set s)\<rparr>
     \<lparr>availableAttributeList = Val [], alreadyMappedAttributesList = [],
      editingMode = Undefined, mapping = Undefined\<rparr>
     (Val (lit ''a b''))
     \<lparr>copyOfAttrs = [], mappedInputValue = Val (lit ''a b''),
      selectedLocalAttributeInputValue = Val (lit ''a1''), mappingHasError = Val False\<rparr>) =
   Some INVALID_RESOURCE_ERROR \<and>
   submitButtons
     \<lparr>availableAttributeList = Val [], alreadyMappedAttributesList = [],
      editingMode = Undefined, mapping = Undefined\<rparr>
     (snd (validation
        \<lparr>url = (\<lambda>s. 0x3A \<in> set s), isValidResourceName = (\<lambda>s. 0x20 \<notin> set s)\<rparr>
        \<lparr>availableAttributeList = Val [], alreadyMappedAttributesList = [],
         editingMode = Undefined, mapping = Undefined\<rparr>
        (Val (lit ''a b''))
        \<lparr>copyOfAttrs = [], mappedInputValue = Val (lit ''a b''),
         selectedLocalAttributeInputValue = Val (lit ''a1''), mappingHasError = Val False\<rparr>)) =
   [\<lparr>disabled = True, buttonType = primary_btn\<rparr>]"
proof -
  let ?fv = "\<lparr>url = (\<lambda>s. 0x3A \<in> set s), isValidResourceName = (\<lambda>s. 0x20 \<notin> set s)\<rparr>"
  let ?add = "\<lparr>availableAttributeList = Val [], alreadyMappedAttributesList = [],
               editingMode = Undefined, mapping = Undefined\<rparr>"
  let ?edit = "\<lparr>availableAttributeList = Val [], alreadyMappedAttributesList = [],
                editingMode = Val True, mapping = Undefined\<rparr>"
  let ?flagged = "\<lparr>copyOfAttrs = [], mappedInputValue = Val (lit ''a b''),
                   selectedLocalAttributeInputValue = Val (lit ''a1''),
                   mappingHasError = Val True\<rparr>"
  let ?unselected = "\<lparr>copyOfAttrs = [], mappedInputValue = Val (lit ''email''),
                      selectedLocalAttributeInputValue = Val [],
                      mappingHasError = Val False\<rparr>"
  let ?typed = "\<lparr>copyOfAttrs = [], mappedInputValue = Val (lit ''a b''),
                 selectedLocalAttributeInputValue = Val (lit ''a1''),
                 mappingHasError = Val False\<rparr>"
  let ?after = "snd (validation ?fv ?add (Val (lit ''a b'')) ?typed)"
  obtain b where "submitButtons ?add ?flagged = [b]"
    and "buttonType b = primary_btn" and "disabled b"
    using submitButtons_disabled [of ?add ?flagged, THEN conjunct1] by auto
  then have first: "submitButtons ?add ?flagged = [\<lparr>disabled = True, buttonType = primary_btn\<rparr>]"
    by simp
  obtain b' where "submitButtons ?edit ?unselected = [b']"
    and "buttonType b' = secondary_btn" and "disabled b'"
    using submitButtons_disabled [of ?edit ?unselected, THEN conjunct1] by auto
  then have second:
    "submitButtons ?edit ?unselected = [\<lparr>disabled = True, buttonType = secondary_btn\<rparr>]"
    by simp
  have fails: "fst (validation ?fv ?add (Val (lit ''a b'')) ?typed) = Some INVALID_RESOURCE_ERROR"
    by (simp add: validation_def lit_def js_whitespace_def trim_def toBits_def)
  then have "\<forall>b\<in>set (submitButtons ?add ?after). disabled b"
    using submitButtons_disabled [of ?add ?typed ?fv ?add "Val (lit ''a b'')",
        THEN conjunct2, THEN conjunct2, THEN conjunct1]
    by simp
  moreover obtain b'' where "submitButtons ?add ?after = [b'']"
    and "buttonType b'' = primary_btn"
    using submitButtons_disabled [of ?add ?after, THEN conjunct1] by auto
  ultimately have third:
    "submitButtons ?add ?after = [\<lparr>disabled = True, buttonType = primary_btn\<rparr>]"
    by simp
  from first second fails third show ?thesis
    by simp
qed

subsection \<open>Near duplicates\<close>

text \<open>
  C10, as the code has it. The duplicate test compares the value as it was typed, not
  trimmed and not case folded, with the external values of the already mapped
  attributes: the already-mapped error is returned only for a value that is equal to
  one of them. A value that differs from an already mapped external value only by
  surrounding whitespace or letter case is therefore not reported, unless it is itself
  equal to another already mapped external value.
\<close>

theorem validation_already_mapped_only_equal:
  assumes "value \<notin> idvpClaim ` set (alreadyMappedAttributesList props)"
  shows "fst (validation fv props value st) \<noteq> Some (Message ALREADY_MAPPED)"
  using assms unfolding validation_def
  by (auto simp: Let_def split: js.splits)

theorem validation_already_mapped_only_equal_witness:
  "differs_only_by_whitespace_or_case (lit '' Email '') (lit ''email'') \<and>
   Val (lit '' Email '') \<notin>
     idvpClaim ` set [\<lparr>idvpClaim = Val (lit ''email''), localClaim = Undefined\<rparr>] \<and>
   fst (validation \<lparr>url = (\<lambda>s. True), isValidResourceName = (\<lambda>s. True)\<rparr>
     \<lparr>availableAttributeList = Val [],
      alreadyMappedAttributesList = [\<lparr>idvpClaim = Val (lit ''email''), localClaim = Undefined\<rparr>],
      editingMode = Undefined, mapping = Undefined\<rparr>
     (Val (lit '' Email '')) initialState) \<noteq> Some (Message ALREADY_MAPPED)"
  using validation_already_mapped_only_equal [of "Val (lit '' Email '')"
      "\<lparr>availableAttributeList = Val [],
        alreadyMappedAttributesList = [\<lparr>idvpClaim = Val (lit ''email''), localClaim = Undefined\<rparr>],
        editingMode = Undefined, mapping = Undefined\<rparr>"
      "\<lparr>url = (\<lambda>s. True), isValidResourceName = (\<lambda>s. True)\<rparr>" initialState]
  by (simp add: lit_def differs_only_by_whitespace_or_case_def trim_def js_whitespace_def
      ascii_lower_def)

text \<open>
  C10, as the claim words it, fails: with \<^verbatim>\<open>email\<close> and \<^verbatim>\<open>Email\<close> both mapped
  already, the value \<^verbatim>\<open>Email\<close> differs from the first only by letter case and gets the
  already-mapped error, being equal to the second.
\<close>

theorem validation_letter_case_counterexample:
  "differs_only_by_whitespace_or_case (lit ''Email'') (lit ''email'') \<and>
   Val (lit ''email'') \<in>
     idvpClaim ` set [\<lparr>idvpClaim = Val (lit ''email''), localClaim = Undefined\<rparr>,
                     \<lparr>idvpClaim = Val (lit ''Email''), localClaim = Undefined\<rparr>] \<and>
   fst (validation \<lparr>url = (\<lambda>s. False), isValidResourceName = (\<lambda>s. True)\<rparr>
     \<lparr>availableAttributeList = Val [],
      alreadyMappedAttributesList =
        [\<lparr>idvpClaim = Val (lit ''email''), localClaim = Undefined\<rparr>,
         \<lparr>idvpClaim = Val (lit ''Email''), localClaim = Undefined\<rparr>],
      editingMode = Undefined, mapping = Undefined\<rparr>
     (Val (lit ''Email'')) initialState) = Some (Message ALREADY_MAPPED)"
  by (simp add: lit_def differs_only_by_whitespace_or_case_def trim_def js_whitespace_def
      ascii_lower_def validation_def toBits_def)

end
